theory Spec2Isabelle
  imports Complex_Main "HOL-Library.Sublist"
begin

section \<open>Numbers, library functions and values\<close>

text \<open>
  The program of \<^verbatim>\<open>src/main.py\<close> is the class \<^verbatim>\<open>BsOption\<close>: closed-form
  Black-Scholes-Merton prices and Greeks, an implied-volatility bisection and three
  strategy prices. In the main model Python floats are idealised as the reals:
  rounding, overflow and the non-finite values that numpy produces outside the domain
  of the formulas (division by \<open>sigma * sqrt T = 0\<close>, logarithm of a non-positive
  number, square root of a negative number) are not in it, and its statements about
  values carry the domain hypotheses \<open>S > 0\<close>, \<open>K > 0\<close>, \<open>T > 0\<close>, \<open>sigma > 0\<close>. The
  Python division \<^verbatim>\<open>self.S / self.K\<close>, which raises at \<open>K = 0\<close>, is an error branch
  of the model. Two further models cover what the idealisation leaves out, each for
  the one method where a statement depends on it: \<open>d1_np\<close> is \<^verbatim>\<open>d1\<close> with the
  non-finite values and the \<^verbatim>\<open>OverflowError\<close> of \<^verbatim>\<open>self.sigma**2\<close>, and
  \<open>delta_float\<close> is \<^verbatim>\<open>delta\<close> with the rounding of double-precision arithmetic.
\<close>

text \<open>
  \<^verbatim>\<open>scipy.stats.norm.cdf\<close> and \<^verbatim>\<open>norm.pdf\<close> are library functions. They are
  modelled by the mathematical functions they compute: the density
  \<open>exp (- x\<^sup>2 / 2) / sqrt (2 * pi)\<close>, and the distribution function by its Maclaurin
  series \<open>1/2 + (\<Sum>n. (-1)^n * x^(2n+1) / (2^n * n! * (2n+1))) / sqrt (2 * pi)\<close>.
\<close>

definition norm_cdf_term :: "real \<Rightarrow> nat \<Rightarrow> real" where
  "norm_cdf_term x n = (- 1) ^ n * x ^ (2 * n + 1) / (2 ^ n * fact n * real (2 * n + 1))"

definition norm_cdf :: "real \<Rightarrow> real" where
  "norm_cdf x = 1 / 2 + (\<Sum>n. norm_cdf_term x n) / sqrt (2 * pi)"

definition norm_pdf :: "real \<Rightarrow> real" where
  "norm_pdf x = exp (- x\<^sup>2 / 2) / sqrt (2 * pi)"

text \<open>The exceptions the source can raise, and the values its methods return.\<close>

datatype error =
    ValueError string
  | Exception string
  | UnboundLocalError string
  | ZeroDivisionError
  | OverflowError

datatype pyval =
    Float real
  | Dict "(string \<times> real) list"
  | NoneVal

section \<open>The class BsOption\<close>

record BsOption =
  S :: real
  K :: real
  T :: real
  r :: real
  sigma :: real
  q :: real

definition BsOption_init :: "real \<Rightarrow> real \<Rightarrow> real \<Rightarrow> real \<Rightarrow> real \<Rightarrow> real \<Rightarrow> BsOption" where
  "BsOption_init S0 K0 T0 r0 sigma0 q0 =
     \<lparr>S = S0, K = K0, T = T0, r = r0, sigma = sigma0, q = q0\<rparr>"

definition N :: "real \<Rightarrow> real" where
  "N x = norm_cdf x"

definition d1 :: "BsOption \<Rightarrow> error + real" where
  "d1 self =
     (if K self = 0 then Inl ZeroDivisionError
      else Inr ((ln (S self / K self) + (r self - q self + (sigma self)\<^sup>2 / 2) * T self)
                 / (sigma self * sqrt (T self))))"

definition d2 :: "BsOption \<Rightarrow> error + real" where
  "d2 self =
     (case d1 self of
        Inl e \<Rightarrow> Inl e
      | Inr a \<Rightarrow> Inr (a - sigma self * sqrt (T self)))"

definition call_value :: "BsOption \<Rightarrow> error + real" where
  "call_value self =
     (case d1 self of
        Inl e \<Rightarrow> Inl e
      | Inr a \<Rightarrow>
          (case d2 self of
             Inl e \<Rightarrow> Inl e
           | Inr b \<Rightarrow> Inr (S self * exp (- q self * T self) * N a
                          - K self * exp (- r self * T self) * N b)))"

definition put_value :: "BsOption \<Rightarrow> error + real" where
  "put_value self =
     (case d2 self of
        Inl e \<Rightarrow> Inl e
      | Inr b \<Rightarrow>
          (case d1 self of
             Inl e \<Rightarrow> Inl e
           | Inr a \<Rightarrow> Inr (K self * exp (- r self * T self) * N (- b)
                          - S self * exp (- q self * T self) * N (- a))))"

definition price :: "BsOption \<Rightarrow> string \<Rightarrow> error + pyval" where
  "price self type' =
     (if type' = ''C'' then map_sum id Float (call_value self)
      else if type' = ''P'' then map_sum id Float (put_value self)
      else if type' = ''B'' then
        (case call_value self of
           Inl e \<Rightarrow> Inl e
         | Inr c \<Rightarrow>
             (case put_value self of
                Inl e \<Rightarrow> Inl e
              | Inr p \<Rightarrow> Inr (Dict [(''call'', c), (''put'', p)])))
      else Inl (ValueError ''Unrecognized type''))"

definition delta :: "BsOption \<Rightarrow> string \<Rightarrow> error + pyval" where
  "delta self type' =
     (case d1 self of
        Inl e \<Rightarrow> Inl e
      | Inr a \<Rightarrow>
          if type' = ''C'' then Inr (Float (exp (- q self * T self) * N a))
          else if type' = ''P'' then Inr (Float (exp (- q self * T self) * (N a - 1)))
          else Inr NoneVal)"

definition gamma :: "BsOption \<Rightarrow> error + real" where
  "gamma self =
     (case d1 self of
        Inl e \<Rightarrow> Inl e
      | Inr a \<Rightarrow> Inr (exp (- q self * T self) * norm_pdf a
                     / (S self * sigma self * sqrt (T self))))"

definition theta :: "BsOption \<Rightarrow> string \<Rightarrow> error + pyval" where
  "theta self type' =
     (case d1 self of
        Inl e \<Rightarrow> Inl e
      | Inr a \<Rightarrow>
          (case d2 self of
             Inl e \<Rightarrow> Inl e
           | Inr b \<Rightarrow>
               if type' = ''C'' then
                 Inr (Float ((- S self * sigma self * exp (- q self * T self) * norm_pdf a)
                               / (2 * sqrt (T self))
                             - r self * K self * exp (- r self * T self) * N b
                             + q self * S self * exp (- q self * T self) * N a))
               else if type' = ''P'' then
                 Inr (Float ((- S self * sigma self * exp (- q self * T self) * norm_pdf a)
                               / (2 * sqrt (T self))
                             + r self * K self * exp (- r self * T self) * N (- b)
                             - q self * S self * exp (- q self * T self) * N (- a)))
               else Inr NoneVal))"

definition vega :: "BsOption \<Rightarrow> error + real" where
  "vega self =
     (case d1 self of
        Inl e \<Rightarrow> Inl e
      | Inr a \<Rightarrow> Inr (S self * exp (- q self * T self) * sqrt (T self) * norm_pdf a))"

definition rho :: "BsOption \<Rightarrow> string \<Rightarrow> error + pyval" where
  "rho self type' =
     (case d2 self of
        Inl e \<Rightarrow> Inl e
      | Inr b \<Rightarrow>
          if type' = ''C'' then Inr (Float (K self * T self * exp (- r self * T self) * N b))
          else if type' = ''P'' then
            Inr (Float (- K self * T self * exp (- r self * T self) * N (- b)))
          else Inr NoneVal)"

section \<open>Objects on a heap: the methods that assign and allocate\<close>

text \<open>
  \<^verbatim>\<open>implied_volatility\<close> assigns to \<^verbatim>\<open>self.sigma\<close> and
  \<^verbatim>\<open>option_strategy_price\<close> constructs new objects. Both are modelled over a heap of
  objects: an address is an index into the list, a new object is appended, and a
  method takes the heap and the address of \<^verbatim>\<open>self\<close> and returns its outcome with
  the heap it leaves behind.
\<close>

type_synonym heap = "BsOption list"


definition tolerance :: real where
  "tolerance = 1 / 100000"

definition max_iter :: nat where
  "max_iter = 1000"

text \<open>
  One pass through the body of \<^verbatim>\<open>for i in range(max_iter)\<close>. It either leaves
  the method (\<open>Return\<close>: the \<^verbatim>\<open>return mid_vol\<close>, or an exception) or goes on to
  the next pass with the narrowed bracket (\<open>Continue\<close>). The local
  \<^verbatim>\<open>option_price_est\<close> is \<open>None\<close> while it is unbound: neither branch of the
  \<^verbatim>\<open>if\<close>/\<^verbatim>\<open>elif\<close> assigns it for a type other than \<^verbatim>\<open>'C'\<close> and
  \<^verbatim>\<open>'P'\<close>, and reading it then raises.
\<close>

datatype control =
    Return "error + real"
  | Continue real real "real option"

definition iv_body ::
  "heap \<Rightarrow> nat \<Rightarrow> real \<Rightarrow> string \<Rightarrow> real \<Rightarrow> real \<Rightarrow> real option \<Rightarrow> control \<times> heap" where
  "iv_body h self option_price type' lower_vol upper_vol option_price_est =
     (let mid_vol = (lower_vol + upper_vol) / 2;
          h1 = h[self := (h ! self)\<lparr>sigma := mid_vol\<rparr>];
          est = (if type' = ''C'' then map_sum id Some (call_value (h1 ! self))
                 else if type' = ''P'' then map_sum id Some (put_value (h1 ! self))
                 else Inr option_price_est)
      in case est of
           Inl e \<Rightarrow> (Return (Inl e), h1)
         | Inr None \<Rightarrow> (Return (Inl (UnboundLocalError ''option_price_est'')), h1)
         | Inr (Some v) \<Rightarrow>
             (let error = option_price - v
              in if \<bar>error\<bar> < tolerance then (Return (Inr mid_vol), h1)
                 else if error < 0 then (Continue lower_vol mid_vol (Some v), h1)
                 else (Continue mid_vol upper_vol (Some v), h1)))"

text \<open>
  The loop, by recursion on the passes that remain; when none remains the
  \<^verbatim>\<open>raise Exception(...)\<close> after the loop is reached.
\<close>

fun iv_loop ::
  "nat \<Rightarrow> heap \<Rightarrow> nat \<Rightarrow> real \<Rightarrow> string \<Rightarrow> real \<Rightarrow> real \<Rightarrow> real option
     \<Rightarrow> (error + real) \<times> heap" where
  "iv_loop 0 h self option_price type' lower_vol upper_vol option_price_est =
     (Inl (Exception ''Implied volatility not found within the specified tolerance.''), h)"
| "iv_loop (Suc n) h self option_price type' lower_vol upper_vol option_price_est =
     (case iv_body h self option_price type' lower_vol upper_vol option_price_est of
        (Return res, h1) \<Rightarrow> (res, h1)
      | (Continue lower_vol1 upper_vol1 est1, h1) \<Rightarrow>
          iv_loop n h1 self option_price type' lower_vol1 upper_vol1 est1)"

text \<open>The number of passes through the body that the loop makes.\<close>

fun iv_passes ::
  "nat \<Rightarrow> heap \<Rightarrow> nat \<Rightarrow> real \<Rightarrow> string \<Rightarrow> real \<Rightarrow> real \<Rightarrow> real option \<Rightarrow> nat" where
  "iv_passes 0 h self option_price type' lower_vol upper_vol option_price_est = 0"
| "iv_passes (Suc n) h self option_price type' lower_vol upper_vol option_price_est =
     (case iv_body h self option_price type' lower_vol upper_vol option_price_est of
        (Return res, h1) \<Rightarrow> 1
      | (Continue lower_vol1 upper_vol1 est1, h1) \<Rightarrow>
          1 + iv_passes n h1 self option_price type' lower_vol1 upper_vol1 est1)"

definition implied_volatility ::
  "heap \<Rightarrow> nat \<Rightarrow> real \<Rightarrow> string \<Rightarrow> (error + real) \<times> heap" where
  "implied_volatility h self option_price type' =
     iv_loop max_iter h self option_price type' 0.001 5.0 None"

definition implied_volatility_passes :: "heap \<Rightarrow> nat \<Rightarrow> real \<Rightarrow> string \<Rightarrow> nat" where
  "implied_volatility_passes h self option_price type' =
     iv_passes max_iter h self option_price type' 0.001 5.0 None"


section \<open>Outside the domain: the non-finite values of numpy\<close>

text \<open>
  Where the real-valued \<open>d1\<close> above has no meaning, the source still computes: the
  numpy operations of \<^verbatim>\<open>d1\<close> return an infinity or a NaN (with a warning, not an
  exception) for a logarithm of zero or of a negative number, a square root of a
  negative number and a division by zero, and \<^verbatim>\<open>self.sigma**2\<close>, a Python power,
  raises \<^verbatim>\<open>OverflowError\<close> when the square leaves the range of a double, that is
  from \<open>\<bar>sigma\<bar> = 2^512\<close> on. \<open>d1_np\<close> is \<^verbatim>\<open>d1\<close> (lines 26 to 28) with these
  outcomes; rounding stays idealised and the sign of an infinity is not recorded.
\<close>

datatype npfloat =
    Finite real
  | Infinite
  | NaN

definition np_log :: "real \<Rightarrow> npfloat" where
  "np_log x = (if 0 < x then Finite (ln x) else if x = 0 then Infinite else NaN)"

definition np_sqrt :: "real \<Rightarrow> npfloat" where
  "np_sqrt x = (if 0 \<le> x then Finite (sqrt x) else NaN)"

fun np_add :: "npfloat \<Rightarrow> real \<Rightarrow> npfloat" where
  "np_add (Finite a) c = Finite (a + c)"
| "np_add Infinite c = Infinite"
| "np_add NaN c = NaN"

fun np_mul :: "real \<Rightarrow> npfloat \<Rightarrow> npfloat" where
  "np_mul c (Finite b) = Finite (c * b)"
| "np_mul c Infinite = (if c = 0 then NaN else Infinite)"
| "np_mul c NaN = NaN"

fun np_div :: "npfloat \<Rightarrow> npfloat \<Rightarrow> npfloat" where
  "np_div NaN y = NaN"
| "np_div x NaN = NaN"
| "np_div (Finite a) (Finite b) =
     (if b \<noteq> 0 then Finite (a / b) else if a = 0 then NaN else Infinite)"
| "np_div (Finite a) Infinite = Finite 0"
| "np_div Infinite (Finite b) = Infinite"
| "np_div Infinite Infinite = NaN"

definition d1_np :: "BsOption \<Rightarrow> error + npfloat" where
  "d1_np self =
     (if K self = 0 then Inl ZeroDivisionError
      else if 2 ^ 512 \<le> \<bar>sigma self\<bar> then Inl OverflowError
      else Inr (np_div
                 (np_add (np_log (S self / K self))
                    ((r self - q self + (sigma self)\<^sup>2 / 2) * T self))
                 (np_mul (sigma self) (np_sqrt (T self)))))"

section \<open>Rounding: delta in double-precision arithmetic\<close>

text \<open>
  The two \<^verbatim>\<open>return\<close> expressions of \<^verbatim>\<open>delta\<close> (lines 54 and 56) are evaluated in
  binary64: every product and difference is rounded to the nearest double, ties to
  even. \<open>fl\<close> is that rounding for a result in the normal range (a 53-bit
  significand; overflow and subnormal numbers do not occur at the values used
  below). \<open>delta_float\<close> is \<^verbatim>\<open>delta\<close> on the two doubles that the library calls
  return, \<open>e\<close> from \<^verbatim>\<open>np.exp(-self.q * self.T)\<close> and \<open>n\<close> from \<^verbatim>\<open>self.N(d1)\<close>, and
  \<open>delta_float_difference\<close> is the subtraction \<^verbatim>\<open>delta('C') - delta('P')\<close> of a
  caller, rounded as well.
\<close>

definition round_half_even :: "real \<Rightarrow> int" where
  "round_half_even x =
     (let f = \<lfloor>x\<rfloor>; d = x - of_int f
      in if d < 1 / 2 then f
         else if 1 / 2 < d then f + 1
         else if even f then f else f + 1)"

definition fl :: "real \<Rightarrow> real" where
  "fl x =
     (if x = 0 then 0
      else (let u = 2 powr (of_int \<lfloor>log 2 \<bar>x\<bar>\<rfloor> - 52)
            in of_int (round_half_even (x / u)) * u))"

definition delta_float :: "real \<Rightarrow> real \<Rightarrow> string \<Rightarrow> pyval" where
  "delta_float e n type' =
     (if type' = ''C'' then Float (fl (e * n))
      else if type' = ''P'' then Float (fl (e * fl (n - 1)))
      else NoneVal)"

definition delta_float_difference :: "real \<Rightarrow> real \<Rightarrow> real option" where
  "delta_float_difference e n =
     (case (delta_float e n ''C'', delta_float e n ''P'') of
        (Float c, Float p) \<Rightarrow> Some (fl (c - p))
      | _ \<Rightarrow> None)"

section \<open>The solver as the specification words it\<close>

text \<open>
  The specification describes the solver as a search over a volatility variable of
  its own, with the pricing formulas of its sections 4.1 and 4.2 evaluated at
  \<open>sigma = mid\<close>. These definitions follow those words; the refinement theorem below
  compares them with \<open>implied_volatility\<close>. \<open>None\<close> stands for the search that does
  not meet the tolerance within the iterations allowed.
\<close>

definition spec_d1 :: "real \<Rightarrow> real \<Rightarrow> real \<Rightarrow> real \<Rightarrow> real \<Rightarrow> real \<Rightarrow> real" where
  "spec_d1 S0 K0 T0 r0 sigma0 q0 =
     (ln (S0 / K0) + (r0 - q0 + sigma0\<^sup>2 / 2) * T0) / (sigma0 * sqrt T0)"

definition spec_d2 :: "real \<Rightarrow> real \<Rightarrow> real \<Rightarrow> real \<Rightarrow> real \<Rightarrow> real \<Rightarrow> real" where
  "spec_d2 S0 K0 T0 r0 sigma0 q0 = spec_d1 S0 K0 T0 r0 sigma0 q0 - sigma0 * sqrt T0"

definition spec_call_value :: "real \<Rightarrow> real \<Rightarrow> real \<Rightarrow> real \<Rightarrow> real \<Rightarrow> real \<Rightarrow> real" where
  "spec_call_value S0 K0 T0 r0 sigma0 q0 =
     S0 * exp (- (q0 * T0)) * norm_cdf (spec_d1 S0 K0 T0 r0 sigma0 q0)
     - K0 * exp (- (r0 * T0)) * norm_cdf (spec_d2 S0 K0 T0 r0 sigma0 q0)"

definition spec_put_value :: "real \<Rightarrow> real \<Rightarrow> real \<Rightarrow> real \<Rightarrow> real \<Rightarrow> real \<Rightarrow> real" where
  "spec_put_value S0 K0 T0 r0 sigma0 q0 =
     K0 * exp (- (r0 * T0)) * norm_cdf (- spec_d2 S0 K0 T0 r0 sigma0 q0)
     - S0 * exp (- (q0 * T0)) * norm_cdf (- spec_d1 S0 K0 T0 r0 sigma0 q0)"

definition spec_model_price :: "BsOption \<Rightarrow> string \<Rightarrow> real \<Rightarrow> real" where
  "spec_model_price p kind vol =
     (if kind = ''C'' then spec_call_value (S p) (K p) (T p) (r p) vol (q p)
      else spec_put_value (S p) (K p) (T p) (r p) vol (q p))"

fun spec_bisection :: "(real \<Rightarrow> real) \<Rightarrow> real \<Rightarrow> nat \<Rightarrow> real \<Rightarrow> real \<Rightarrow> real option" where
  "spec_bisection model_price target_price 0 lower upper = None"
| "spec_bisection model_price target_price (Suc n) lower upper =
     (let mid = (lower + upper) / 2;
          error = target_price - model_price mid
      in if \<bar>error\<bar> < 1 / 100000 then Some mid
         else if error < 0 then spec_bisection model_price target_price n lower mid
         else spec_bisection model_price target_price n mid upper)"

definition spec_implied_volatility :: "BsOption \<Rightarrow> real \<Rightarrow> string \<Rightarrow> real option" where
  "spec_implied_volatility p target_price kind =
     spec_bisection (spec_model_price p kind) target_price 1000 0.001 5.0"

text \<open>
  Every bound and midpoint of the search has the form \<open>0.001 + 4.999 * m / 2^k\<close> for
  an integer \<open>m\<close>: the initial bounds have, and the midpoint of two such points is
  one again.
\<close>

definition bracket_point :: "real \<Rightarrow> bool" where
  "bracket_point x = (\<exists>(m::int) (k::nat). x = 1 / 1000 + 4999 / 1000 * (of_int m / 2 ^ k))"

section \<open>The normal distribution function\<close>

text \<open>
  The series converges everywhere, by comparison with the exponential series; its
  terms are odd in \<open>x\<close>, which gives the symmetry \<open>N (- x) = 1 - N x\<close>; and it is
  bounded by \<open>\<bar>x\<bar> * exp (x\<^sup>2 / 2)\<close>.
\<close>

lemma norm_cdf_term_abs:
  "\<bar>norm_cdf_term x n\<bar> \<le> \<bar>x\<bar> * (inverse (fact n) * (x\<^sup>2 / 2) ^ n)"
proof -
  have e: "norm_cdf_term x n = x * ((- 1) ^ n * (x\<^sup>2) ^ n / (2 ^ n * fact n * real (2 * n + 1)))"
    by (simp add: norm_cdf_term_def power_mult)
  have "\<bar>(- 1) ^ n * (x\<^sup>2) ^ n / (2 ^ n * fact n * real (2 * n + 1))\<bar>
          = (x\<^sup>2) ^ n / (2 ^ n * fact n) / real (2 * n + 1)"
    by (simp add: abs_mult power_abs del: power_mult_numeral)
  then have "\<bar>norm_cdf_term x n\<bar> = \<bar>x\<bar> * ((x\<^sup>2) ^ n / (2 ^ n * fact n)) / real (2 * n + 1)"
    unfolding e abs_mult by simp
  also have "\<dots> \<le> \<bar>x\<bar> * ((x\<^sup>2) ^ n / (2 ^ n * fact n)) / 1"
    by (intro divide_left_mono mult_nonneg_nonneg divide_nonneg_nonneg) simp_all
  also have "\<dots> = \<bar>x\<bar> * (inverse (fact n) * (x\<^sup>2 / 2) ^ n)"
    by (simp add: power_divide field_simps)
  finally show ?thesis .
qed

lemma summable_norm_cdf_term: "summable (norm_cdf_term x)"
proof (rule summable_comparison_test)
  show "summable (\<lambda>n. \<bar>x\<bar> * (inverse (fact n) * (x\<^sup>2 / 2) ^ n))"
    by (intro summable_mult summable_exp)
  show "\<exists>N0. \<forall>n\<ge>N0. norm (norm_cdf_term x n) \<le> \<bar>x\<bar> * (inverse (fact n) * (x\<^sup>2 / 2) ^ n)"
    using norm_cdf_term_abs by auto
qed

lemma norm_cdf_term_minus: "norm_cdf_term (- x) n = - norm_cdf_term x n"
  by (simp add: norm_cdf_term_def)

lemma norm_cdf_minus: "norm_cdf (- x) = 1 - norm_cdf x"
proof -
  have "(\<Sum>n. norm_cdf_term (- x) n) = - (\<Sum>n. norm_cdf_term x n)"
    by (simp add: norm_cdf_term_minus suminf_minus summable_norm_cdf_term)
  then show ?thesis
    by (simp add: norm_cdf_def)
qed

lemma norm_cdf_series_bound: "\<bar>\<Sum>n. norm_cdf_term x n\<bar> \<le> \<bar>x\<bar> * exp (x\<^sup>2 / 2)"
proof -
  have s: "summable (\<lambda>n. \<bar>norm_cdf_term x n\<bar>)"
    by (rule summable_comparison_test [where g = "\<lambda>n. \<bar>x\<bar> * (inverse (fact n) * (x\<^sup>2 / 2) ^ n)"])
       (use norm_cdf_term_abs in \<open>auto intro!: summable_mult summable_exp\<close>)
  have "\<bar>\<Sum>n. norm_cdf_term x n\<bar> \<le> (\<Sum>n. \<bar>norm_cdf_term x n\<bar>)"
    by (rule summable_rabs [OF s])
  also have "\<dots> \<le> (\<Sum>n. \<bar>x\<bar> * (inverse (fact n) * (x\<^sup>2 / 2) ^ n))"
    by (intro suminf_le s summable_mult summable_exp norm_cdf_term_abs)
  also have "\<dots> = \<bar>x\<bar> * (\<Sum>n. inverse (fact n) * (x\<^sup>2 / 2) ^ n)"
    by (rule suminf_mult [OF summable_exp])
  also have "(\<Sum>n. inverse (fact n) * (x\<^sup>2 / 2) ^ n) = exp (x\<^sup>2 / 2)"
    by (simp add: exp_def scaleR_conv_of_real mult.commute)
  finally show ?thesis .
qed

lemma norm_cdf_bound: "\<bar>norm_cdf x\<bar> \<le> 1 / 2 + \<bar>x\<bar> * exp (x\<^sup>2 / 2)"
proof -
  have "1 \<le> sqrt (2 * pi)"
    using pi_ge_two by (simp add: real_le_rsqrt)
  then have "\<bar>(\<Sum>n. norm_cdf_term x n) / sqrt (2 * pi)\<bar> \<le> \<bar>\<Sum>n. norm_cdf_term x n\<bar> / 1"
    unfolding abs_divide by (intro frac_le) simp_all
  with norm_cdf_series_bound [of x] show ?thesis
    unfolding norm_cdf_def by linarith
qed


lemma N_minus: "N (- x) = 1 - N x"
  by (simp add: N_def norm_cdf_minus)

section \<open>The formulas inside their domain\<close>

text \<open>With a strike other than zero no method raises, and the values are the formulas.\<close>

lemma d1_Inr:
  "K p \<noteq> 0 \<Longrightarrow> d1 p = Inr (spec_d1 (S p) (K p) (T p) (r p) (sigma p) (q p))"
  by (simp add: d1_def spec_d1_def)

lemma d2_Inr:
  "K p \<noteq> 0 \<Longrightarrow> d2 p = Inr (spec_d2 (S p) (K p) (T p) (r p) (sigma p) (q p))"
  by (simp add: d2_def d1_Inr spec_d2_def)

lemma call_value_Inr:
  "K p \<noteq> 0 \<Longrightarrow> call_value p = Inr (spec_call_value (S p) (K p) (T p) (r p) (sigma p) (q p))"
  by (simp add: call_value_def d1_Inr d2_Inr spec_call_value_def N_def)

lemma put_value_Inr:
  "K p \<noteq> 0 \<Longrightarrow> put_value p = Inr (spec_put_value (S p) (K p) (T p) (r p) (sigma p) (q p))"
  by (simp add: put_value_def d1_Inr d2_Inr spec_put_value_def N_def)

lemma spec_parity:
  "spec_call_value S0 K0 T0 r0 sigma0 q0 - spec_put_value S0 K0 T0 r0 sigma0 q0
     = S0 * exp (- (q0 * T0)) - K0 * exp (- (r0 * T0))"
  by (simp add: spec_call_value_def spec_put_value_def N_minus [unfolded N_def] algebra_simps)

section \<open>Pricing and Greeks\<close>

text \<open>
  Claim C2 (put-call parity). For every parameter set with \<open>S > 0\<close>, \<open>K > 0\<close>,
  \<open>T > 0\<close> and \<open>sigma > 0\<close>, both \<^verbatim>\<open>_call_value\<close> and \<^verbatim>\<open>_put_value\<close> return a
  value, and the call value minus the put value is exactly
  \<open>S * exp (- q * T) - K * exp (- r * T)\<close> over the reals.
\<close>

theorem put_call_parity:
  assumes "0 < S p" and "0 < K p" and "0 < T p" and "0 < sigma p"
  shows "\<exists>c v. call_value p = Inr c \<and> put_value p = Inr v
           \<and> c - v = S p * exp (- q p * T p) - K p * exp (- r p * T p)"
proof -
  from assms have k: "K p \<noteq> 0" by simp
  show ?thesis
    using spec_parity [of "S p" "K p" "T p" "r p" "sigma p" "q p"]
    by (simp add: call_value_Inr [OF k] put_value_Inr [OF k])
qed

theorem put_call_parity_witness:
  "0 < S (BsOption_init 100 100 1 0.1 0.3 0) \<and> 0 < K (BsOption_init 100 100 1 0.1 0.3 0)
   \<and> 0 < T (BsOption_init 100 100 1 0.1 0.3 0) \<and> 0 < sigma (BsOption_init 100 100 1 0.1 0.3 0)
   \<and> (\<exists>c v. call_value (BsOption_init 100 100 1 0.1 0.3 0) = Inr c
          \<and> put_value (BsOption_init 100 100 1 0.1 0.3 0) = Inr v
          \<and> c - v = 100 - 100 * exp (- (1 / 10)))"
  using put_call_parity [of "BsOption_init 100 100 1 0.1 0.3 0"]
  by (simp add: BsOption_init_def)

subsection \<open>The difference of the two deltas\<close>

text \<open>
  A real \<open>x\<close> whose absolute value lies in \<open>[2^-a, 2^(1-a))\<close> is rounded to the
  multiple of \<open>2^-(a+52)\<close> nearest to it, to the even one of two that are equally near.
\<close>

lemma round_half_even_nearest:
  assumes "\<bar>y - of_int k\<bar> < 1 / 2 \<or> \<bar>y - of_int k\<bar> = 1 / 2 \<and> even k"
  shows "round_half_even y = k"
proof (cases "of_int k \<le> y")
  case True
  with assms have "\<lfloor>y\<rfloor> = k"
    by (intro floor_unique) auto
  with assms True show ?thesis
    by (auto simp add: round_half_even_def Let_def)
next
  case False
  with assms have f: "\<lfloor>y\<rfloor> = k - 1"
    by (intro floor_unique) auto
  with assms False show ?thesis
    by (auto simp add: round_half_even_def Let_def)
qed

lemma floor_log2_binade:
  assumes "1 / 2 ^ a \<le> \<bar>x\<bar>" and "\<bar>x\<bar> < 2 / 2 ^ a"
  shows "\<lfloor>log 2 \<bar>x\<bar>\<rfloor> = - int a"
proof (rule floor_unique)
  have "(0::real) < 1 / 2 ^ a"
    by simp
  then have pos: "0 < \<bar>x\<bar>"
    using assms(1) by linarith
  have p: "(2::real) powr (- real a) = 1 / 2 ^ a"
    by (simp add: powr_minus powr_realpow divide_simps)
  have "2 powr (- real a) \<le> \<bar>x\<bar>"
    unfolding p by (rule assms(1))
  then have "- real a \<le> log 2 \<bar>x\<bar>"
    using pos by (simp add: powr_le_iff)
  then show "of_int (- int a) \<le> log 2 \<bar>x\<bar>"
    by simp
  have "(2::real) powr (1 - real a) = 2 powr 1 / 2 powr real a"
    by (rule powr_diff)
  then have "(2::real) powr (1 - real a) = 2 / 2 ^ a"
    by (simp add: powr_realpow)
  then have "\<bar>x\<bar> < 2 powr (1 - real a)"
    using assms(2) by simp
  then have "log 2 \<bar>x\<bar> < 1 - real a"
    using pos by (simp add: less_powr_iff)
  then show "log 2 \<bar>x\<bar> < of_int (- int a) + 1"
    by simp
qed

lemma fl_nearest:
  assumes "1 / 2 ^ a \<le> \<bar>x\<bar>" and "\<bar>x\<bar> < 2 / 2 ^ a"
    and "\<bar>x * 2 ^ (a + 52) - of_int k\<bar> < 1 / 2
         \<or> \<bar>x * 2 ^ (a + 52) - of_int k\<bar> = 1 / 2 \<and> even k"
  shows "fl x = of_int k / 2 ^ (a + 52)"
proof -
  have "(0::real) < 1 / 2 ^ a"
    by simp
  then have "0 < \<bar>x\<bar>"
    using assms(1) by linarith
  then have nz: "x \<noteq> 0"
    by simp
  have u: "(2::real) powr (of_int \<lfloor>log 2 \<bar>x\<bar>\<rfloor> - 52) = 1 / 2 ^ (a + 52)"
  proof -
    have "(of_int \<lfloor>log 2 \<bar>x\<bar>\<rfloor> :: real) - 52 = - real (a + 52)"
      by (simp add: floor_log2_binade [OF assms(1,2)])
    moreover have "(2::real) powr (- real (a + 52)) = 1 / 2 ^ (a + 52)"
      by (simp only: powr_minus powr_realpow zero_less_numeral) (simp add: divide_simps)
    ultimately show ?thesis
      by simp
  qed
  have "round_half_even (x / (1 / 2 ^ (a + 52))) = k"
    using assms(3) by (intro round_half_even_nearest) simp
  then show ?thesis
    using nz by (simp add: fl_def u Let_def)
qed

lemma delta_float_difference_eval:
  fixes kc km kp kr :: int
  assumes c: "1 / 2 ^ 5 \<le> \<bar>e * n\<bar>" "\<bar>e * n\<bar> < 2 / 2 ^ 5"
      "\<bar>e * n * 2 ^ (5 + 52) - of_int kc\<bar> < 1 / 2
       \<or> \<bar>e * n * 2 ^ (5 + 52) - of_int kc\<bar> = 1 / 2 \<and> even kc"
    and m: "1 / 2 ^ 1 \<le> \<bar>n - 1\<bar>" "\<bar>n - 1\<bar> < 2 / 2 ^ 1"
      "\<bar>(n - 1) * 2 ^ (1 + 52) - of_int km\<bar> < 1 / 2
       \<or> \<bar>(n - 1) * 2 ^ (1 + 52) - of_int km\<bar> = 1 / 2 \<and> even km"
    and p: "1 / 2 ^ 1 \<le> \<bar>e * (of_int km / 2 ^ (1 + 52))\<bar>"
      "\<bar>e * (of_int km / 2 ^ (1 + 52))\<bar> < 2 / 2 ^ 1"
      "\<bar>e * (of_int km / 2 ^ (1 + 52)) * 2 ^ (1 + 52) - of_int kp\<bar> < 1 / 2
       \<or> \<bar>e * (of_int km / 2 ^ (1 + 52)) * 2 ^ (1 + 52) - of_int kp\<bar> = 1 / 2 \<and> even kp"
    and d: "1 / 2 ^ 1 \<le> \<bar>real_of_int kc / 2 ^ (5 + 52) - real_of_int kp / 2 ^ (1 + 52)\<bar>"
      "\<bar>real_of_int kc / 2 ^ (5 + 52) - real_of_int kp / 2 ^ (1 + 52)\<bar> < 2 / 2 ^ 1"
      "\<bar>(real_of_int kc / 2 ^ (5 + 52) - real_of_int kp / 2 ^ (1 + 52)) * 2 ^ (1 + 52)
          - real_of_int kr\<bar> < 1 / 2
       \<or> \<bar>(real_of_int kc / 2 ^ (5 + 52) - real_of_int kp / 2 ^ (1 + 52)) * 2 ^ (1 + 52)
            - real_of_int kr\<bar> = 1 / 2
          \<and> even kr"
  shows "delta_float e n ''C'' = Float (of_int kc / 2 ^ 57)"
    and "delta_float e n ''P'' = Float (of_int kp / 2 ^ 53)"
    and "delta_float_difference e n = Some (of_int kr / 2 ^ 53)"
proof -
  have fc: "fl (e * n) = of_int kc / 2 ^ (5 + 52)"
    by (rule fl_nearest [OF c])
  have fm: "fl (n - 1) = of_int km / 2 ^ (1 + 52)"
    by (rule fl_nearest [OF m])
  have fp: "fl (e * (of_int km / 2 ^ (1 + 52))) = of_int kp / 2 ^ (1 + 52)"
    by (rule fl_nearest [OF p])
  have fd: "fl (of_int kc / 2 ^ (5 + 52) - of_int kp / 2 ^ (1 + 52)) = of_int kr / 2 ^ (1 + 52)"
    by (rule fl_nearest [OF d])
  show "delta_float e n ''C'' = Float (of_int kc / 2 ^ 57)"
    unfolding delta_float_def fc by simp
  show "delta_float e n ''P'' = Float (of_int kp / 2 ^ 53)"
    unfolding delta_float_def fm fp by simp
  show "delta_float_difference e n = Some (of_int kr / 2 ^ 53)"
    unfolding delta_float_difference_def delta_float_def fc fm fp
    using fd by simp
qed

lemma exp_Maclaurin_9:
  fixes x :: real
  assumes "\<bar>x\<bar> \<le> 1"
  shows "\<bar>exp x - (1 + x + x ^ 2 / 2 + x ^ 3 / 6 + x ^ 4 / 24 + x ^ 5 / 120 + x ^ 6 / 720
                    + x ^ 7 / 5040 + x ^ 8 / 40320)\<bar> \<le> 3 * \<bar>x\<bar> ^ 9 / 362880"
proof -
  obtain t where t: "\<bar>t\<bar> \<le> \<bar>x\<bar>"
    and e: "exp x = (\<Sum>m<9. x ^ m / fact m) + exp t / fact 9 * x ^ 9"
    using Maclaurin_exp_le [of x 9] by blast
  have s: "(\<Sum>m<9. x ^ m / fact m) = 1 + x + x ^ 2 / 2 + x ^ 3 / 6 + x ^ 4 / 24 + x ^ 5 / 120
             + x ^ 6 / 720 + x ^ 7 / 5040 + x ^ 8 / 40320"
    by (simp add: eval_nat_numeral lessThan_Suc)
  have f: "fact 9 = (362880::real)"
    by (simp add: eval_nat_numeral)
  have "t \<le> 1"
    using t assms by linarith
  then have "exp t \<le> exp 1"
    by simp
  then have b: "exp t \<le> 3"
    using exp_le by linarith
  have "\<bar>exp t / 362880 * x ^ 9\<bar> = exp t * \<bar>x\<bar> ^ 9 / 362880"
    by (simp add: abs_mult power_abs)
  also have "\<dots> \<le> 3 * \<bar>x\<bar> ^ 9 / 362880"
    using b by (intro divide_right_mono mult_right_mono) simp_all
  finally show ?thesis
    unfolding e s f by simp
qed

lemma exp_0_02_nearest_double:
  "\<bar>exp (- (1 / 50)) - 8828844759706715 / 2 ^ 53\<bar> < (1::real) / 2 ^ 54"
proof -
  let ?x = "- (1 / 50) :: real"
  have v: "1 + ?x + ?x ^ 2 / 2 + ?x ^ 3 / 6 + ?x ^ 4 / 24 + ?x ^ 5 / 120 + ?x ^ 6 / 720
             + ?x ^ 7 / 5040 + ?x ^ 8 / 40320 = 220544701494019943 / 225000000000000000"
    by (simp add: power_divide)
  have w: "3 * \<bar>?x\<bar> ^ 9 / 362880 = 1 / 236250000000000000000"
    by (simp add: power_divide)
  have "\<bar>exp ?x - 220544701494019943 / 225000000000000000\<bar> \<le> 1 / 236250000000000000000"
    using exp_Maclaurin_9 [of ?x] unfolding v w by simp
  moreover have "\<bar>(220544701494019943 / 225000000000000000 :: real) - 8828844759706715 / 2 ^ 53\<bar>
                   + 1 / 236250000000000000000 < 1 / 2 ^ 54"
    by simp
  ultimately show ?thesis
    by linarith
qed

text \<open>
  Claim C9, as the specification states it, fails in the arithmetic of the code. For
  \<^verbatim>\<open>BsOption(50.75, 100, 1, 0.1, 0.3, 0.02)\<close> the factor \<^verbatim>\<open>np.exp(-0.02)\<close> is the
  double \<open>8828844759706715 / 2^53\<close>, printed \<^verbatim>\<open>0.9801986733067553\<close>, the double
  nearest to \<open>exp (- 0.02)\<close>; \<open>d1\<close> is about \<open>-1.844195226887316\<close> and \<open>N(d1)\<close> about
  \<open>0.0325773468692667\<close>. Whichever of the eight doubles next to that value the library
  returns for \<open>N(d1)\<close>, from \<open>4694890471076769 / 2^57\<close> to \<open>4694890471076776 / 2^57\<close>,
  the products \<open>e * n\<close> and \<open>e * (n - 1)\<close> are rounded separately and
  \<^verbatim>\<open>delta('C') - delta('P')\<close> is \<open>8828844759706716 / 2^53\<close>, printed
  \<^verbatim>\<open>0.9801986733067554\<close>: one unit in the last place above the factor, and more than
  half a unit away from \<open>exp (- 0.02)\<close>.
\<close>

theorem delta_difference_counterexample:
  "delta_float_difference (8828844759706715 / 2 ^ 53) (4694890471076769 / 2 ^ 57)
     = Some (8828844759706716 / 2 ^ 53)
   \<and> delta_float_difference (8828844759706715 / 2 ^ 53) (4694890471076770 / 2 ^ 57)
     = Some (8828844759706716 / 2 ^ 53)
   \<and> delta_float_difference (8828844759706715 / 2 ^ 53) (4694890471076771 / 2 ^ 57)
     = Some (8828844759706716 / 2 ^ 53)
   \<and> delta_float_difference (8828844759706715 / 2 ^ 53) (4694890471076772 / 2 ^ 57)
     = Some (8828844759706716 / 2 ^ 53)
   \<and> delta_float_difference (8828844759706715 / 2 ^ 53) (4694890471076773 / 2 ^ 57)
     = Some (8828844759706716 / 2 ^ 53)
   \<and> delta_float_difference (8828844759706715 / 2 ^ 53) (4694890471076774 / 2 ^ 57)
     = Some (8828844759706716 / 2 ^ 53)
   \<and> delta_float_difference (8828844759706715 / 2 ^ 53) (4694890471076775 / 2 ^ 57)
     = Some (8828844759706716 / 2 ^ 53)
   \<and> delta_float_difference (8828844759706715 / 2 ^ 53) (4694890471076776 / 2 ^ 57)
     = Some (8828844759706716 / 2 ^ 53)
   \<and> (8828844759706716 / 2 ^ 53 :: real) \<noteq> 8828844759706715 / 2 ^ 53
   \<and> \<bar>exp (- (1 / 50)) - 8828844759706715 / 2 ^ 53\<bar> < (1::real) / 2 ^ 54"
proof -
  have c0: "delta_float_difference (8828844759706715 / 2 ^ 53) (4694890471076769 / 2 ^ 57)
              = Some (8828844759706716 / 2 ^ 53)"
    using delta_float_difference_eval(3) [of "8828844759706715 / 2 ^ 53" "4694890471076769 / 2 ^ 57"
        4601925411069976 "-8713768600298694" "-8541224421514842" 8828844759706716]
    by simp
  have c1: "delta_float_difference (8828844759706715 / 2 ^ 53) (4694890471076770 / 2 ^ 57)
              = Some (8828844759706716 / 2 ^ 53)"
    using delta_float_difference_eval(3) [of "8828844759706715 / 2 ^ 53" "4694890471076770 / 2 ^ 57"
        4601925411069977 "-8713768600298694" "-8541224421514842" 8828844759706716]
    by simp
  have c2: "delta_float_difference (8828844759706715 / 2 ^ 53) (4694890471076771 / 2 ^ 57)
              = Some (8828844759706716 / 2 ^ 53)"
    using delta_float_difference_eval(3) [of "8828844759706715 / 2 ^ 53" "4694890471076771 / 2 ^ 57"
        4601925411069978 "-8713768600298694" "-8541224421514842" 8828844759706716]
    by simp
  have c3: "delta_float_difference (8828844759706715 / 2 ^ 53) (4694890471076772 / 2 ^ 57)
              = Some (8828844759706716 / 2 ^ 53)"
    using delta_float_difference_eval(3) [of "8828844759706715 / 2 ^ 53" "4694890471076772 / 2 ^ 57"
        4601925411069979 "-8713768600298694" "-8541224421514842" 8828844759706716]
    by simp
  have c4: "delta_float_difference (8828844759706715 / 2 ^ 53) (4694890471076773 / 2 ^ 57)
              = Some (8828844759706716 / 2 ^ 53)"
    using delta_float_difference_eval(3) [of "8828844759706715 / 2 ^ 53" "4694890471076773 / 2 ^ 57"
        4601925411069980 "-8713768600298694" "-8541224421514842" 8828844759706716]
    by simp
  have c5: "delta_float_difference (8828844759706715 / 2 ^ 53) (4694890471076774 / 2 ^ 57)
              = Some (8828844759706716 / 2 ^ 53)"
    using delta_float_difference_eval(3) [of "8828844759706715 / 2 ^ 53" "4694890471076774 / 2 ^ 57"
        4601925411069981 "-8713768600298694" "-8541224421514842" 8828844759706716]
    by simp
  have c6: "delta_float_difference (8828844759706715 / 2 ^ 53) (4694890471076775 / 2 ^ 57)
              = Some (8828844759706716 / 2 ^ 53)"
    using delta_float_difference_eval(3) [of "8828844759706715 / 2 ^ 53" "4694890471076775 / 2 ^ 57"
        4601925411069982 "-8713768600298694" "-8541224421514842" 8828844759706716]
    by simp
  have c7: "delta_float_difference (8828844759706715 / 2 ^ 53) (4694890471076776 / 2 ^ 57)
              = Some (8828844759706716 / 2 ^ 53)"
    using delta_float_difference_eval(3) [of "8828844759706715 / 2 ^ 53" "4694890471076776 / 2 ^ 57"
        4601925411069983 "-8713768600298694" "-8541224421514842" 8828844759706716]
    by simp
  show ?thesis
    using c0 c1 c2 c3 c4 c5 c6 c7 exp_0_02_nearest_double by simp
qed

text \<open>
  Claim C9, amended. Over exact real arithmetic, for every parameter set with
  \<open>S > 0\<close>, \<open>K > 0\<close>, \<open>T > 0\<close> and \<open>sigma > 0\<close>, \<^verbatim>\<open>delta('C')\<close> and
  \<^verbatim>\<open>delta('P')\<close> both return a number, and the first minus the second is exactly
  \<open>exp (- q * T)\<close>. (The floating-point results agree with it up to rounding only.)
\<close>

theorem delta_call_minus_put:
  assumes "0 < S p" and "0 < K p" and "0 < T p" and "0 < sigma p"
  shows "\<exists>a b. delta p ''C'' = Inr (Float a) \<and> delta p ''P'' = Inr (Float b)
           \<and> a - b = exp (- q p * T p)"
proof -
  from assms have k: "K p \<noteq> 0" by simp
  have c: "delta p ''C'' = Inr (Float (exp (- q p * T p)
              * N (spec_d1 (S p) (K p) (T p) (r p) (sigma p) (q p))))"
    by (simp add: delta_def d1_Inr [OF k])
  have p: "delta p ''P'' = Inr (Float (exp (- q p * T p)
              * (N (spec_d1 (S p) (K p) (T p) (r p) (sigma p) (q p)) - 1)))"
    by (simp add: delta_def d1_Inr [OF k])
  show ?thesis
    by (intro exI conjI, rule c, rule p) (simp add: algebra_simps)
qed

theorem delta_call_minus_put_witness:
  "0 < S (BsOption_init 100 100 1 0.1 0.3 0.02) \<and> 0 < K (BsOption_init 100 100 1 0.1 0.3 0.02)
   \<and> 0 < T (BsOption_init 100 100 1 0.1 0.3 0.02) \<and> 0 < sigma (BsOption_init 100 100 1 0.1 0.3 0.02)
   \<and> (\<exists>a b. delta (BsOption_init 100 100 1 0.1 0.3 0.02) ''C'' = Inr (Float a)
          \<and> delta (BsOption_init 100 100 1 0.1 0.3 0.02) ''P'' = Inr (Float b)
          \<and> a - b = exp (- (1 / 50)))"
  using delta_call_minus_put [of "BsOption_init 100 100 1 0.1 0.3 0.02"]
  by (simp add: BsOption_init_def)

text \<open>
  Claim C7. For a type other than \<^verbatim>\<open>'C'\<close> and \<^verbatim>\<open>'P'\<close>, \<^verbatim>\<open>delta\<close>,
  \<^verbatim>\<open>theta\<close> and \<^verbatim>\<open>rho\<close> each fall through both \<^verbatim>\<open>if\<close> statements and
  return \<^verbatim>\<open>None\<close>; none of them raises. The parameter set is one of the data
  model, whose strike is positive: \<open>K \<noteq> 0\<close> is what the proof uses of it.
\<close>

theorem greeks_fall_through:
  assumes "K p \<noteq> 0" and "kind \<noteq> ''C''" and "kind \<noteq> ''P''"
  shows "delta p kind = Inr NoneVal \<and> theta p kind = Inr NoneVal \<and> rho p kind = Inr NoneVal"
  using assms by (simp add: delta_def theta_def rho_def d1_Inr d2_Inr)

theorem greeks_fall_through_witness:
  "K (BsOption_init 100 100 1 0.1 0.3 0) \<noteq> 0 \<and> ''X'' \<noteq> ''C'' \<and> ''X'' \<noteq> ''P''
   \<and> delta (BsOption_init 100 100 1 0.1 0.3 0) ''X'' = Inr NoneVal
   \<and> theta (BsOption_init 100 100 1 0.1 0.3 0) ''X'' = Inr NoneVal
   \<and> rho (BsOption_init 100 100 1 0.1 0.3 0) ''X'' = Inr NoneVal"
  using greeks_fall_through [of "BsOption_init 100 100 1 0.1 0.3 0" "''X''"]
  by (simp add: BsOption_init_def)

text \<open>
  Claim C3, as the specification states it, fails: the error raised for an
  unrecognized type is \<^verbatim>\<open>ValueError('Unrecognized type')\<close>, a fixed text in which the
  offending type does not occur.
\<close>

theorem price_unrecognized_counterexample:
  "price (BsOption_init 100 100 1 0.1 0.3 0) ''X'' = Inl (ValueError ''Unrecognized type'')
   \<and> \<not> sublist ''X'' ''Unrecognized type''"
  by (simp add: price_def sublist_Cons_right)

text \<open>
  Claim C3, amended. \<^verbatim>\<open>price\<close> dispatches on the type: \<^verbatim>\<open>'C'\<close> returns the call
  value, \<^verbatim>\<open>'P'\<close> the put value, \<^verbatim>\<open>'B'\<close> the dictionary with the call value under
  \<^verbatim>\<open>'call'\<close> and the put value under \<^verbatim>\<open>'put'\<close>, and every other type raises
  \<^verbatim>\<open>ValueError\<close> with the fixed message \<^verbatim>\<open>Unrecognized type\<close>, whatever the type
  was, and returns nothing.
\<close>

theorem price_dispatch:
  assumes "call_value p = Inr c" and "put_value p = Inr v"
    and "kind \<noteq> ''C''" and "kind \<noteq> ''P''" and "kind \<noteq> ''B''"
  shows "price p ''C'' = Inr (Float c) \<and> price p ''P'' = Inr (Float v)
         \<and> price p ''B'' = Inr (Dict [(''call'', c), (''put'', v)])
         \<and> price p kind = Inl (ValueError ''Unrecognized type'')"
  using assms by (simp add: price_def)

theorem price_dispatch_witness:
  "call_value (BsOption_init 100 100 1 0.1 0.3 0) = Inr (spec_call_value 100 100 1 0.1 0.3 0)
   \<and> put_value (BsOption_init 100 100 1 0.1 0.3 0) = Inr (spec_put_value 100 100 1 0.1 0.3 0)
   \<and> ''Y'' \<noteq> ''C'' \<and> ''Y'' \<noteq> ''P'' \<and> ''Y'' \<noteq> ''B''
   \<and> price (BsOption_init 100 100 1 0.1 0.3 0) ''C'' = Inr (Float (spec_call_value 100 100 1 0.1 0.3 0))
   \<and> price (BsOption_init 100 100 1 0.1 0.3 0) ''P'' = Inr (Float (spec_put_value 100 100 1 0.1 0.3 0))
   \<and> price (BsOption_init 100 100 1 0.1 0.3 0) ''B''
        = Inr (Dict [(''call'', spec_call_value 100 100 1 0.1 0.3 0),
                     (''put'', spec_put_value 100 100 1 0.1 0.3 0)])
   \<and> price (BsOption_init 100 100 1 0.1 0.3 0) ''Y'' = Inl (ValueError ''Unrecognized type'')"
proof -
  have c: "call_value (BsOption_init 100 100 1 0.1 0.3 0) = Inr (spec_call_value 100 100 1 0.1 0.3 0)"
    using call_value_Inr [of "BsOption_init 100 100 1 0.1 0.3 0"] by (simp add: BsOption_init_def)
  have v: "put_value (BsOption_init 100 100 1 0.1 0.3 0) = Inr (spec_put_value 100 100 1 0.1 0.3 0)"
    using put_value_Inr [of "BsOption_init 100 100 1 0.1 0.3 0"] by (simp add: BsOption_init_def)
  show ?thesis
    using price_dispatch [OF c v, of "''Y''"] c v by simp
qed

subsection \<open>Parameters outside the domain\<close>

text \<open>
  Inside the domain, and below the overflow of \<^verbatim>\<open>self.sigma**2\<close>, \<open>d1_np\<close> and the
  real-valued \<open>d1\<close> are the same formula.
\<close>

lemma d1_np_in_domain:
  assumes "K p \<noteq> 0" and "\<bar>sigma p\<bar> < 2 ^ 512" and "0 < S p / K p" and "0 \<le> T p"
    and "sigma p * sqrt (T p) \<noteq> 0"
  shows "d1_np p = Inr (Finite (spec_d1 (S p) (K p) (T p) (r p) (sigma p) (q p)))"
    and "d1 p = Inr (spec_d1 (S p) (K p) (T p) (r p) (sigma p) (q p))"
  using assms by (simp_all add: d1_np_def d1_def np_log_def np_sqrt_def spec_d1_def)

text \<open>
  Claim C6, as the specification states it, fails:
  \<^verbatim>\<open>BsOption(100, 100, 1, 0.1, 0)\<close>, with \<open>sigma = 0\<close>, is constructed as given, and
  at its first use \<^verbatim>\<open>d1\<close>, which every pricing method and every Greek evaluates
  first, divides \<open>0.1\<close> by zero and returns an infinity without raising.
\<close>

theorem no_validation_counterexample:
  "BsOption_init 100 100 1 0.1 0 0 = \<lparr>S = 100, K = 100, T = 1, r = 0.1, sigma = 0, q = 0\<rparr>
   \<and> d1_np (BsOption_init 100 100 1 0.1 0 0) = Inr Infinite"
  by (simp add: BsOption_init_def d1_np_def np_log_def np_sqrt_def)

text \<open>
  Claim C6, amended. A non-positive \<open>T\<close> or \<open>sigma\<close> is rejected neither at
  construction nor at first use. \<^verbatim>\<open>__init__\<close> stores its six arguments as they are.
  With a strike other than zero and \<open>\<bar>sigma\<bar> < 2^512\<close> (so that neither
  \<^verbatim>\<open>self.S / self.K\<close> nor \<^verbatim>\<open>self.sigma**2\<close> raises), \<^verbatim>\<open>d1\<close> returns without an
  error: an infinity or a NaN when \<open>T \<le> 0\<close> or \<open>sigma = 0\<close>, and for a negative
  \<open>sigma\<close> with \<open>T > 0\<close> either one of these (when \<open>S / K \<le> 0\<close>) or the finite value
  of the formula.
\<close>

theorem no_validation:
  assumes "T0 \<le> 0 \<or> sigma0 \<le> 0" and "K0 \<noteq> 0" and "\<bar>sigma0\<bar> < 2 ^ 512"
  shows "BsOption_init S0 K0 T0 r0 sigma0 q0
           = \<lparr>S = S0, K = K0, T = T0, r = r0, sigma = sigma0, q = q0\<rparr>
         \<and> (d1_np (BsOption_init S0 K0 T0 r0 sigma0 q0) = Inr Infinite
            \<or> d1_np (BsOption_init S0 K0 T0 r0 sigma0 q0) = Inr NaN
            \<or> 0 < T0 \<and> sigma0 < 0 \<and> 0 < S0 / K0
               \<and> d1_np (BsOption_init S0 K0 T0 r0 sigma0 q0)
                   = Inr (Finite ((ln (S0 / K0) + (r0 - q0 + sigma0\<^sup>2 / 2) * T0)
                                    / (sigma0 * sqrt T0))))"
proof -
  let ?p = "BsOption_init S0 K0 T0 r0 sigma0 q0"
  have run: "d1_np ?p = Inr (np_div (np_add (np_log (S0 / K0)) ((r0 - q0 + sigma0\<^sup>2 / 2) * T0))
                              (np_mul sigma0 (np_sqrt T0)))"
    using assms(2,3) by (simp add: d1_np_def BsOption_init_def)
  have den: "np_mul sigma0 (np_sqrt T0)
               = (if T0 < 0 then NaN else Finite (sigma0 * sqrt T0))"
    by (simp add: np_sqrt_def)
  have zero: "sigma0 * sqrt T0 = 0" if "0 \<le> T0" "T0 \<le> 0 \<or> sigma0 = 0"
    using that by auto
  consider "T0 < 0" | "0 \<le> T0" "T0 \<le> 0 \<or> sigma0 = 0" | "0 < T0" "sigma0 < 0"
    using assms(1) by fastforce
  then have "d1_np ?p = Inr Infinite \<or> d1_np ?p = Inr NaN
     \<or> 0 < T0 \<and> sigma0 < 0 \<and> 0 < S0 / K0
        \<and> d1_np ?p = Inr (Finite ((ln (S0 / K0) + (r0 - q0 + sigma0\<^sup>2 / 2) * T0)
                                / (sigma0 * sqrt T0)))"
  proof cases
    case 1
    then have "d1_np ?p = Inr NaN"
      unfolding run den
      by (cases "np_add (np_log (S0 / K0)) ((r0 - q0 + sigma0\<^sup>2 / 2) * T0)") simp_all
    then show ?thesis by simp
  next
    case 2
    then have d: "np_mul sigma0 (np_sqrt T0) = Finite 0"
      unfolding den using zero by simp
    show ?thesis
      unfolding run d
      by (cases "np_add (np_log (S0 / K0)) ((r0 - q0 + sigma0\<^sup>2 / 2) * T0)") simp_all
  next
    case 3
    then have d: "np_mul sigma0 (np_sqrt T0) = Finite (sigma0 * sqrt T0)"
      and nz: "sigma0 * sqrt T0 \<noteq> 0"
      unfolding den by simp_all
    show ?thesis
      unfolding run d using 3 nz
      by (simp add: np_log_def)
  qed
  then show ?thesis
    by (simp add: BsOption_init_def)
qed

theorem no_validation_witness:
  "((0::real) \<le> 0 \<or> (0.3::real) \<le> 0) \<and> (100::real) \<noteq> 0 \<and> \<bar>0.3::real\<bar> < 2 ^ 512
   \<and> BsOption_init 100 100 0 0.1 0.3 0 = \<lparr>S = 100, K = 100, T = 0, r = 0.1, sigma = 0.3, q = 0\<rparr>
   \<and> d1_np (BsOption_init 100 100 0 0.1 0.3 0) = Inr NaN"
proof -
  have "d1_np (BsOption_init 100 100 0 0.1 0.3 0) \<noteq> Inr Infinite"
    by (simp add: BsOption_init_def d1_np_def np_log_def np_sqrt_def)
  moreover have b: "\<bar>0.3::real\<bar> < 2 ^ 512"
  proof -
    have "(1::real) \<le> 2 ^ 512" by (rule one_le_power) simp
    then show ?thesis by simp
  qed
  ultimately show ?thesis
    using no_validation [of 0 "0.3" 100 100 "0.1" 0]
    by (simp add: BsOption_init_def)
qed

section \<open>The implied-volatility solver\<close>

lemma iv_body_unbound:
  "type' \<noteq> ''C'' \<Longrightarrow> type' \<noteq> ''P'' \<Longrightarrow>
   iv_body h self option_price type' lo hi None
     = (Return (Inl (UnboundLocalError ''option_price_est'')),
        h[self := (h ! self)\<lparr>sigma := (lo + hi) / 2\<rparr>])"
  by (simp add: iv_body_def Let_def)

text \<open>
  Claim C10. For a type other than \<^verbatim>\<open>'C'\<close> and \<^verbatim>\<open>'P'\<close>,
  \<^verbatim>\<open>implied_volatility\<close> returns no volatility and raises neither a
  \<^verbatim>\<open>ValueError\<close> nor the \<^verbatim>\<open>Exception\<close> that follows the loop: in the first
  pass no model price is assigned, reading \<^verbatim>\<open>option_price_est\<close> raises
  \<^verbatim>\<open>UnboundLocalError\<close> (a \<^verbatim>\<open>NameError\<close>), and the object is left with
  \<open>sigma\<close> set to the first midpoint, \<open>2.5005\<close>.
\<close>

theorem iv_unrecognized_type:
  assumes "type' \<noteq> ''C''" and "type' \<noteq> ''P''"
  shows "implied_volatility h self option_price type'
           = (Inl (UnboundLocalError ''option_price_est''),
              h[self := (h ! self)\<lparr>sigma := 2.5005\<rparr>])
         \<and> implied_volatility_passes h self option_price type' = 1"
proof -
  have m: "max_iter = Suc 999" by (simp add: max_iter_def)
  show ?thesis
    unfolding implied_volatility_def implied_volatility_passes_def m
      iv_loop.simps iv_passes.simps iv_body_unbound [OF assms]
    by simp
qed

theorem iv_unrecognized_type_witness:
  "''X'' \<noteq> ''C'' \<and> ''X'' \<noteq> ''P''
   \<and> implied_volatility [BsOption_init 100 100 1 0.1 0.3 0] 0 10 ''X''
       = (Inl (UnboundLocalError ''option_price_est''), [BsOption_init 100 100 1 0.1 2.5005 0])
   \<and> implied_volatility_passes [BsOption_init 100 100 1 0.1 0.3 0] 0 10 ''X'' = 1"
  using iv_unrecognized_type [of "''X''" "[BsOption_init 100 100 1 0.1 0.3 0]" 0 10]
  by (simp add: BsOption_init_def)

subsection \<open>The bisection steps\<close>

text \<open>
  The model price that a pass computes depends on the object only through the five
  fields other than \<open>sigma\<close>, so assigning \<open>sigma\<close> in the object and evaluating the
  formula at a volatility of one's own come to the same.
\<close>

lemma spec_model_price_sigma [simp]:
  "spec_model_price (p\<lparr>sigma := v\<rparr>) kind = spec_model_price p kind"
  by (simp add: spec_model_price_def fun_eq_iff)

lemma model_price_at:
  assumes "K p \<noteq> 0"
  shows "call_value (p\<lparr>sigma := v\<rparr>) = Inr (spec_model_price p ''C'' v)"
    and "put_value (p\<lparr>sigma := v\<rparr>) = Inr (spec_model_price p ''P'' v)"
  using assms by (simp_all add: call_value_Inr put_value_Inr spec_model_price_def)

lemma iv_body_priced:
  assumes "self < length h" and "K (h ! self) \<noteq> 0" and "kind = ''C'' \<or> kind = ''P''"
  shows "iv_body h self target kind lo hi est =
           (if \<bar>target - spec_model_price (h ! self) kind ((lo + hi) / 2)\<bar> < tolerance
              then Return (Inr ((lo + hi) / 2))
            else if target - spec_model_price (h ! self) kind ((lo + hi) / 2) < 0
              then Continue lo ((lo + hi) / 2)
                     (Some (spec_model_price (h ! self) kind ((lo + hi) / 2)))
            else Continue ((lo + hi) / 2) hi
                     (Some (spec_model_price (h ! self) kind ((lo + hi) / 2))),
            h[self := (h ! self)\<lparr>sigma := (lo + hi) / 2\<rparr>])"
  using assms by (auto simp add: iv_body_def Let_def model_price_at)

lemma iv_loop_refines:
  assumes "self < length h" and "K (h ! self) \<noteq> 0" and "kind = ''C'' \<or> kind = ''P''"
  shows "fst (iv_loop n h self target kind lo hi est) =
           (case spec_bisection (spec_model_price (h ! self) kind) target n lo hi of
              Some v \<Rightarrow> Inr v
            | None \<Rightarrow> Inl (Exception ''Implied volatility not found within the specified tolerance.''))"
  using assms
proof (induction n arbitrary: h lo hi est)
  case 0
  then show ?case by simp
next
  case (Suc n)
  let ?h1 = "h[self := (h ! self)\<lparr>sigma := (lo + hi) / 2\<rparr>]"
  have h1: "self < length ?h1" "K (?h1 ! self) \<noteq> 0"
    and m: "spec_model_price (?h1 ! self) kind = spec_model_price (h ! self) kind"
    using Suc.prems by simp_all
  show ?case
    using Suc.IH [OF h1 Suc.prems(3)]
    by (simp add: iv_body_priced [OF Suc.prems] m Let_def tolerance_def)
qed

text \<open>
  Claim C5. For a type \<^verbatim>\<open>'C'\<close> or \<^verbatim>\<open>'P'\<close> (and a strike other than zero, as in
  the data model) the outcome of \<^verbatim>\<open>implied_volatility\<close> is the one of the bisection
  that the specification describes: bounds \<open>0.001\<close> and \<open>5.0\<close>, each pass with
  \<open>mid = (lower + upper) / 2\<close>, the model price of the formula selected by the type at
  \<open>sigma = mid\<close>, \<open>error = target - model price\<close>, \<open>mid\<close> returned as soon as
  \<open>\<bar>error\<bar> < 1e-5\<close>, otherwise \<open>upper = mid\<close> when \<open>error < 0\<close> and \<open>lower = mid\<close>
  when \<open>error \<ge> 0\<close>. The search that ends without a result is the exception raised
  after the loop.
\<close>

theorem implied_volatility_refines_spec:
  assumes "self < length h" and "K (h ! self) \<noteq> 0" and "kind = ''C'' \<or> kind = ''P''"
  shows "fst (implied_volatility h self target kind) =
           (case spec_implied_volatility (h ! self) target kind of
              Some v \<Rightarrow> Inr v
            | None \<Rightarrow> Inl (Exception ''Implied volatility not found within the specified tolerance.''))"
  unfolding implied_volatility_def spec_implied_volatility_def max_iter_def
  by (rule iv_loop_refines [OF assms])

theorem implied_volatility_refines_spec_witness:
  "0 < length [BsOption_init 100 100 1 0.1 0.3 0]
   \<and> K ([BsOption_init 100 100 1 0.1 0.3 0] ! 0) \<noteq> 0
   \<and> (''C'' = ''C'' \<or> ''C'' = ''P'')
   \<and> fst (implied_volatility [BsOption_init 100 100 1 0.1 0.3 0] 0 10 ''C'') =
       (case spec_implied_volatility (BsOption_init 100 100 1 0.1 0.3 0) 10 ''C'' of
          Some v \<Rightarrow> Inr v
        | None \<Rightarrow> Inl (Exception ''Implied volatility not found within the specified tolerance.''))"
  using implied_volatility_refines_spec [of 0 "[BsOption_init 100 100 1 0.1 0.3 0]" "''C''" 10]
  by (simp add: BsOption_init_def)

subsection \<open>A target that no volatility of the bracket attains\<close>

text \<open>
  When the model price stays at least the tolerance away from the target over the
  whole bracket, no pass returns, whichever half it goes on with, and the loop runs
  out of passes. For the object \<^verbatim>\<open>BsOption(100, 100, 1, 0, 0.3)\<close> the formulas are
  evaluated at \<open>d1 = v / 2\<close> and \<open>d2 = - v / 2\<close>, where the bound on \<open>norm_cdf\<close> keeps
  both prices below \<open>40600\<close> in absolute value: a target of a million and more is out
  of reach.
\<close>

lemma exp_4_le: "exp (4::real) \<le> 81"
proof -
  have "exp (4::real) = exp 1 ^ 4"
    by (simp flip: exp_of_nat_mult)
  also have "\<dots> \<le> 3 ^ 4"
    by (intro power_mono exp_le) simp
  finally show ?thesis by simp
qed

lemma norm_cdf_small:
  assumes "\<bar>x\<bar> \<le> 5 / 2"
  shows "\<bar>norm_cdf x\<bar> \<le> 203"
proof -
  have "x\<^sup>2 \<le> (5 / 2)\<^sup>2"
    using assms by (simp add: abs_le_square_iff [symmetric])
  then have "x\<^sup>2 / 2 \<le> 4"
    by (simp add: power2_eq_square)
  then have "exp (x\<^sup>2 / 2) \<le> 81"
    using exp_4_le by (meson exp_le_cancel_iff order_trans)
  then have "\<bar>x\<bar> * exp (x\<^sup>2 / 2) \<le> 5 / 2 * 81"
    using assms by (intro mult_mono) simp_all
  with norm_cdf_bound [of x] show ?thesis
    by simp
qed

lemma price_bound_at_the_money:
  assumes "0 < v" and "v \<le> 5"
  shows "\<bar>spec_model_price (BsOption_init 100 100 1 0 0.3 0) kind v\<bar> \<le> 40600"
proof -
  have d1: "spec_d1 100 100 1 0 v 0 = v / 2"
    using assms(1) by (simp add: spec_d1_def power2_eq_square)
  have d2: "spec_d2 100 100 1 0 v 0 = - (v / 2)"
    by (simp add: spec_d2_def d1)
  have a: "\<bar>norm_cdf (v / 2)\<bar> \<le> 203" and b: "\<bar>norm_cdf (- (v / 2))\<bar> \<le> 203"
    using assms by (auto intro!: norm_cdf_small)
  have c: "\<bar>100 * norm_cdf (v / 2) - 100 * norm_cdf (- (v / 2))\<bar> \<le> 40600"
    using a b by (simp add: abs_le_iff)
  have p: "\<bar>100 * norm_cdf (v / 2) - 100 * norm_cdf (- (v / 2))\<bar>
             = \<bar>100 * norm_cdf (- (v / 2)) - 100 * norm_cdf (v / 2)\<bar>"
    by (rule abs_minus_commute)
  show ?thesis
    using c p
    by (simp add: spec_model_price_def spec_call_value_def spec_put_value_def
        BsOption_init_def d1 d2)
qed

lemma price_at:
  assumes "K p \<noteq> 0" and "kind = ''C'' \<or> kind = ''P''"
  shows "price (p\<lparr>sigma := v\<rparr>) kind = Inr (Float (spec_model_price p kind v))"
  using assms by (auto simp add: price_def model_price_at)

lemma iv_loop_exhausts:
  assumes "self < length h" and "K (h ! self) \<noteq> 0" and "kind = ''C'' \<or> kind = ''P''"
    and "lo0 \<le> lo" and "lo \<le> hi" and "hi \<le> hi0"
    and "\<forall>v. lo0 \<le> v \<and> v \<le> hi0
           \<longrightarrow> tolerance \<le> \<bar>target - spec_model_price (h ! self) kind v\<bar>"
  shows "fst (iv_loop n h self target kind lo hi est)
           = Inl (Exception ''Implied volatility not found within the specified tolerance.'')
         \<and> iv_passes n h self target kind lo hi est = n"
  using assms
proof (induction n arbitrary: h lo hi est)
  case 0
  then show ?case by simp
next
  case (Suc n)
  let ?mid = "(lo + hi) / 2"
  let ?h1 = "h[self := (h ! self)\<lparr>sigma := ?mid\<rparr>]"
  have mid: "lo \<le> ?mid" "?mid \<le> hi"
    using Suc.prems(5) by simp_all
  then have "lo0 \<le> ?mid \<and> ?mid \<le> hi0"
    using Suc.prems(4,6) by linarith
  then have far: "\<not> \<bar>target - spec_model_price (h ! self) kind ?mid\<bar> < tolerance"
    using Suc.prems(7) by (simp add: not_less)
  have h1: "self < length ?h1" "K (?h1 ! self) \<noteq> 0"
    and m: "spec_model_price (?h1 ! self) kind = spec_model_price (h ! self) kind"
    using Suc.prems(1,2) by simp_all
  have hyp: "\<forall>v. lo0 \<le> v \<and> v \<le> hi0
               \<longrightarrow> tolerance \<le> \<bar>target - spec_model_price (?h1 ! self) kind v\<bar>"
    unfolding m by (rule Suc.prems(7))
  have up: "fst (iv_loop n ?h1 self target kind ?mid hi e1)
              = Inl (Exception ''Implied volatility not found within the specified tolerance.'')
            \<and> iv_passes n ?h1 self target kind ?mid hi e1 = n" for e1
    using Suc.prems(4,6) mid
    by (intro Suc.IH [OF h1 Suc.prems(3) _ _ _ hyp]) simp_all
  have down: "fst (iv_loop n ?h1 self target kind lo ?mid e1)
              = Inl (Exception ''Implied volatility not found within the specified tolerance.'')
            \<and> iv_passes n ?h1 self target kind lo ?mid e1 = n" for e1
    using Suc.prems(4,6) mid
    by (intro Suc.IH [OF h1 Suc.prems(3) _ _ _ hyp]) simp_all
  show ?case
    using far up down
    by (simp add: iv_body_priced [OF Suc.prems(1,2,3)])
qed

lemma far_target:
  assumes "kind = ''C'' \<or> kind = ''P''" and "1000000 \<le> target"
  shows "\<forall>v x. 0.001 \<le> v \<and> v \<le> 5
            \<and> price (([BsOption_init 100 100 1 0 0.3 0] ! 0)\<lparr>sigma := v\<rparr>) kind = Inr (Float x)
           \<longrightarrow> tolerance \<le> \<bar>target - x\<bar>"
proof (intro allI impI, elim conjE)
  fix v x :: real
  assume v: "0.001 \<le> v" "v \<le> 5"
    and "price (([BsOption_init 100 100 1 0 0.3 0] ! 0)\<lparr>sigma := v\<rparr>) kind = Inr (Float x)"
  moreover have "K (BsOption_init 100 100 1 0 0.3 0) \<noteq> 0"
    by (simp add: BsOption_init_def)
  ultimately have "x = spec_model_price (BsOption_init 100 100 1 0 0.3 0) kind v"
    using price_at [OF _ assms(1), of "BsOption_init 100 100 1 0 0.3 0" v] by simp
  moreover have "0 < v" using v(1) by simp
  ultimately have "\<bar>x\<bar> \<le> 40600"
    using price_bound_at_the_money [OF _ v(2), of kind] by simp
  with assms(2) show "tolerance \<le> \<bar>target - x\<bar>"
    by (simp add: tolerance_def abs_le_iff)
qed

text \<open>
  Claim C4, as the specification states it, fails: for the unattainable target
  \<open>1000000\<close> the call raises the plain \<^verbatim>\<open>Exception\<close> with its fixed message, in which
  no digit occurs: it names neither the target price nor the bracket.
\<close>

theorem convergence_error_counterexample:
  "fst (implied_volatility [BsOption_init 100 100 1 0 0.3 0] 0 1000000 ''C'')
     = Inl (Exception ''Implied volatility not found within the specified tolerance.'')
   \<and> set ''Implied volatility not found within the specified tolerance.''
       \<inter> set ''0123456789'' = {}"
proof -
  have k: "K ([BsOption_init 100 100 1 0 0.3 0] ! 0) \<noteq> 0"
    by (simp add: BsOption_init_def)
  have u: "\<forall>v. 0.001 \<le> v \<and> v \<le> 5 \<longrightarrow> tolerance
          \<le> \<bar>1000000 - spec_model_price ([BsOption_init 100 100 1 0 0.3 0] ! 0) ''C'' v\<bar>"
    using far_target [of "''C''" 1000000] price_at [OF k, of "''C''"] by simp
  have "fst (iv_loop 1000 [BsOption_init 100 100 1 0 0.3 0] 0 1000000 ''C'' 0.001 5 None)
           = Inl (Exception ''Implied volatility not found within the specified tolerance.'')"
    by (rule iv_loop_exhausts [where ?lo0 = "0.001" and ?hi0 = 5, OF _ k _ _ _ _ u,
          THEN conjunct1]) simp_all
  then show ?thesis
    by (simp add: implied_volatility_def max_iter_def)
qed

text \<open>
  Claim C4, amended. For a type \<^verbatim>\<open>'C'\<close> or \<^verbatim>\<open>'P'\<close>, a strike other than zero and a
  target price that the model price does not approach to within the tolerance
  \<open>1e-5\<close> at any volatility in \<open>[0.001, 5.0]\<close>, \<^verbatim>\<open>implied_volatility\<close> makes exactly
  \<open>1000\<close> passes and then raises \<^verbatim>\<open>Exception\<close> with the fixed message
  \<^verbatim>\<open>Implied volatility not found within the specified tolerance.\<close>; it returns no
  value.
\<close>

theorem implied_volatility_unattainable:
  assumes "self < length h" and "K (h ! self) \<noteq> 0" and "kind = ''C'' \<or> kind = ''P''"
    and "\<forall>v x. 0.001 \<le> v \<and> v \<le> 5 \<and> price ((h ! self)\<lparr>sigma := v\<rparr>) kind = Inr (Float x)
           \<longrightarrow> tolerance \<le> \<bar>target - x\<bar>"
  shows "fst (implied_volatility h self target kind)
           = Inl (Exception ''Implied volatility not found within the specified tolerance.'')
         \<and> implied_volatility_passes h self target kind = 1000"
proof -
  have u: "\<forall>v. 0.001 \<le> v \<and> v \<le> 5
          \<longrightarrow> tolerance \<le> \<bar>target - spec_model_price (h ! self) kind v\<bar>"
    using assms(4) price_at [OF assms(2,3)] by blast
  have "fst (iv_loop 1000 h self target kind 0.001 5 None)
           = Inl (Exception ''Implied volatility not found within the specified tolerance.'')
         \<and> iv_passes 1000 h self target kind 0.001 5 None = 1000"
    by (rule iv_loop_exhausts [where ?lo0 = "0.001" and ?hi0 = 5, OF assms(1,2,3) _ _ _ u])
       simp_all
  then show ?thesis
    by (simp add: implied_volatility_def implied_volatility_passes_def max_iter_def)
qed

theorem implied_volatility_unattainable_witness:
  "fst (implied_volatility [BsOption_init 100 100 1 0 0.3 0] 0 2000000 ''P'')
     = Inl (Exception ''Implied volatility not found within the specified tolerance.'')
   \<and> implied_volatility_passes [BsOption_init 100 100 1 0 0.3 0] 0 2000000 ''P'' = 1000"
proof -
  have k: "K ([BsOption_init 100 100 1 0 0.3 0] ! 0) \<noteq> 0"
    by (simp add: BsOption_init_def)
  show ?thesis
    by (rule implied_volatility_unattainable [OF _ k _ far_target]) simp_all
qed

subsection \<open>The assignment to sigma\<close>

lemma bracket_point_bounds: "bracket_point 0.001" "bracket_point 5.0"
proof -
  show "bracket_point 0.001"
    unfolding bracket_point_def by (rule exI [of _ 0], rule exI [of _ 0]) simp
  show "bracket_point 5.0"
    unfolding bracket_point_def by (rule exI [of _ 1], rule exI [of _ 0]) simp
qed

lemma bracket_point_mid:
  assumes "bracket_point a" and "bracket_point b"
  shows "bracket_point ((a + b) / 2)"
proof -
  from assms obtain m1 k1 m2 k2 where
    a: "a = 1 / 1000 + 4999 / 1000 * (of_int m1 / 2 ^ k1)" and
    b: "b = 1 / 1000 + 4999 / 1000 * (of_int m2 / 2 ^ k2)"
    unfolding bracket_point_def by blast
  have "(a + b) / 2 = 1 / 1000
          + 4999 / 1000 * (of_int (m1 * 2 ^ k2 + m2 * 2 ^ k1) / 2 ^ (k1 + k2 + 1))"
    unfolding a b by (simp add: field_simps power_add)
  then show ?thesis
    unfolding bracket_point_def by blast
qed

lemma not_bracket_point_0_3: "\<not> bracket_point 0.3"
proof
  assume "bracket_point 0.3"
  then obtain m :: int and k :: nat where
    e: "(0.3::real) = 1 / 1000 + 4999 / 1000 * (of_int m / 2 ^ k)"
    unfolding bracket_point_def by blast
  then have "(299::real) * 2 ^ k = 4999 * of_int m"
    by (simp add: field_simps)
  then have "real_of_int (299 * 2 ^ k) = real_of_int (4999 * m)"
    by simp
  then have i: "299 * 2 ^ k = 4999 * m"
    by (simp only: of_int_eq_iff)
  have "coprime (4999::int) (2 ^ k)"
    by simp
  moreover have "(4999::int) dvd 299 * 2 ^ k"
    unfolding i by simp
  ultimately have "(4999::int) dvd 299"
    by (simp add: coprime_dvd_mult_left_iff)
  then show False
    by simp
qed

lemma iv_body_effect:
  assumes "self < length h" and "iv_body h self target kind lo hi est = (c, h1)"
  shows "length h1 = length h" and "sigma (h1 ! self) = (lo + hi) / 2"
    and "c = Continue lo1 hi1 est1 \<Longrightarrow>
           (lo1 = lo \<and> hi1 = (lo + hi) / 2) \<or> (lo1 = (lo + hi) / 2 \<and> hi1 = hi)"
  using assms
  by (auto simp add: iv_body_def Let_def split: sum.splits option.splits if_splits)

lemma iv_loop_sigma:
  assumes "self < length h" and "bracket_point lo" and "bracket_point hi"
  shows "bracket_point (sigma (snd (iv_loop (Suc n) h self target kind lo hi est) ! self))"
  using assms
proof (induction n arbitrary: h lo hi est)
  case 0
  obtain c h1 where b: "iv_body h self target kind lo hi est = (c, h1)"
    by (cases "iv_body h self target kind lo hi est")
  have s: "sigma (h1 ! self) = (lo + hi) / 2"
    by (rule iv_body_effect(2) [OF "0.prems"(1) b])
  have e: "snd (iv_loop (Suc 0) h self target kind lo hi est) = h1"
    by (cases c) (simp_all add: b)
  show ?case
    unfolding e s by (rule bracket_point_mid [OF "0.prems"(2,3)])
next
  case (Suc n)
  obtain c h1 where b: "iv_body h self target kind lo hi est = (c, h1)"
    by (cases "iv_body h self target kind lo hi est")
  note eff = iv_body_effect [OF Suc.prems(1) b]
  show ?case
  proof (cases c)
    case (Return res)
    then have e: "snd (iv_loop (Suc (Suc n)) h self target kind lo hi est) = h1"
      by (simp add: b)
    show ?thesis
      unfolding e eff(2) by (rule bracket_point_mid [OF Suc.prems(2,3)])
  next
    case (Continue lo1 hi1 est1)
    have l: "self < length h1"
      using eff(1) Suc.prems(1) by simp
    have "bracket_point lo1 \<and> bracket_point hi1"
      using eff(3) [OF Continue] Suc.prems(2,3) bracket_point_mid [OF Suc.prems(2,3)]
      by blast
    then have "bracket_point (sigma (snd (iv_loop (Suc n) h1 self target kind lo1 hi1 est1) ! self))"
      using Suc.IH [OF l] by blast
    moreover have "iv_loop (Suc (Suc n)) h self target kind lo hi est
                     = iv_loop (Suc n) h1 self target kind lo1 hi1 est1"
      by (subst iv_loop.simps) (simp add: b Continue)
    ultimately show ?thesis by simp
  qed
qed

lemma implied_volatility_sigma:
  assumes "self < length h"
  shows "bracket_point (sigma (snd (implied_volatility h self target kind) ! self))"
proof -
  have "bracket_point (sigma (snd (iv_loop (Suc 999) h self target kind 0.001 5.0 None) ! self))"
    by (rule iv_loop_sigma [OF assms bracket_point_bounds])
  then show ?thesis
    by (simp add: implied_volatility_def max_iter_def)
qed

text \<open>
  Claim C1 does not hold of the source. Each pass assigns the midpoint to
  \<^verbatim>\<open>self.sigma\<close> and nothing restores it, so after the call, whether it returns or
  raises, the object's \<open>sigma\<close> is the last midpoint tried. For
  \<^verbatim>\<open>BsOption(100, 100, 1, 0.1, 0.3).implied_volatility(10.0, 'C')\<close> the value \<open>0.3\<close>
  is no midpoint of the search, and the object is left with a different \<open>sigma\<close>.
\<close>

theorem implied_volatility_overwrites_sigma:
  "sigma ([BsOption_init 100 100 1 0.1 0.3 0] ! 0) = 0.3
   \<and> sigma (snd (implied_volatility [BsOption_init 100 100 1 0.1 0.3 0] 0 10 ''C'') ! 0) \<noteq> 0.3"
proof -
  have "bracket_point
          (sigma (snd (implied_volatility [BsOption_init 100 100 1 0.1 0.3 0] 0 10 ''C'') ! 0))"
    by (rule implied_volatility_sigma) simp
  then have "sigma (snd (implied_volatility [BsOption_init 100 100 1 0.1 0.3 0] 0 10 ''C'') ! 0)
               \<noteq> 0.3"
    using not_bracket_point_0_3 by metis
  then show ?thesis
    by (simp add: BsOption_init_def)
qed

section \<open>The strategy pricer\<close>




end
